theory Spec2Isabelle
  imports Complex_Main "HOL-Library.Option_ord"
begin

section \<open>Data model (database.py, schema of init\_db)\<close>

text \<open>
  The four tables the telemetry engine reads and writes. A row is a record, a table is the
  list of its rows in insertion order. Timestamps are stored by SQLite as UTC text
  \<^verbatim>\<open>YYYY-MM-DD HH:MM:SS\<close>; they are modelled as whole seconds since the epoch, on which
  the text order used by \<^verbatim>\<open>ORDER BY timestamp\<close> is the numeric order. The column is
  nullable, hence \<open>int option\<close>. Temperatures are \<^verbatim>\<open>REAL NOT NULL\<close> and modelled as exact
  reals.
\<close>

record location =
  loc_id :: nat
  loc_name :: string

record cold_room =
  room_id :: nat
  room_name :: string
  room_location_id :: nat
  room_sensor_id :: "string option"

record temperature_row =
  td_id :: nat
  td_cold_room_id :: nat
  td_temperature :: real
  td_timestamp :: "int option"

record esp32_error =
  err_id :: nat
  err_esp32_mac :: string
  err_sensor_id :: "string option"
  err_error_type :: string
  err_error_message :: string
  err_timestamp :: "int option"
  err_resolved :: bool

record db =
  locations :: "location list"
  cold_rooms :: "cold_room list"
  temperature_data :: "temperature_row list"
  esp32_errors :: "esp32_error list"

text \<open>\<^verbatim>\<open>INTEGER PRIMARY KEY AUTOINCREMENT\<close>: one more than the largest id in the table (no
  statement of the program deletes a sample or an error, so no id above it was ever used).\<close>

definition next_id :: "nat list \<Rightarrow> nat" where
  "next_id ids = Suc (fold max ids 0)"

text \<open>Python truthiness of an optional string: \<^verbatim>\<open>None\<close> and \<^verbatim>\<open>''\<close> are falsy.\<close>

fun truthy_str :: "string option \<Rightarrow> bool" where
  "truthy_str None = False"
| "truthy_str (Some s) = (s \<noteq> [])"

text \<open>\<^verbatim>\<open>ORDER BY k DESC\<close>: descending in the key, NULL (\<open>None\<close>) last, rows with equal keys
  in table order.\<close>

definition sort_desc :: "('a \<Rightarrow> 'k::linorder) \<Rightarrow> 'a list \<Rightarrow> 'a list" where
  "sort_desc k xs = rev (sort_key k (rev xs))"

section \<open>Double-precision arithmetic\<close>

text \<open>
  SQLite and Python compute on IEEE 754 binary64 numbers. A finite double is modelled by the
  real number it denotes, and an arithmetic operation on doubles by the exact operation
  followed by \<open>fl\<close>, the rounding to the nearest double with ties going to the even
  significand. Infinities and NaN are not modelled: every quantity below stays far inside
  the range of a double for timestamps with four-digit years and for temperatures a sensor
  can report.
\<close>

text \<open>The nearest integer, a tie going to the even neighbour.\<close>

definition round_half_even :: "real \<Rightarrow> int" where
  "round_half_even x =
     (let f = \<lfloor>x\<rfloor>; r = x - real_of_int f
      in if r < 1 / 2 then f else if r > 1 / 2 then f + 1
         else if even f then f else f + 1)"

definition pow2 :: "int \<Rightarrow> real" where
  "pow2 e = (if 0 \<le> e then 2 ^ nat e else 1 / 2 ^ nat (- e))"

text \<open>The binary exponent of a positive real \<open>x\<close>, the \<open>e\<close> with \<open>2 ^ e \<le> x < 2 ^ (e + 1)\<close>,
  found by halving or doubling. The fuel bounds the search; 1100 steps cover every exponent
  a double can have.\<close>

fun binary_exponent :: "nat \<Rightarrow> real \<Rightarrow> int" where
  "binary_exponent 0 x = 0"
| "binary_exponent (Suc n) x =
     (if 2 \<le> x then binary_exponent n (x / 2) + 1
      else if x < 1 then binary_exponent n (x * 2) - 1
      else 0)"

text \<open>Rounding to 53 significant bits; below \<open>2 ^ (- 1022)\<close> the spacing of the doubles stays
  \<open>2 ^ (- 1074)\<close>.\<close>

definition fl :: "real \<Rightarrow> real" where
  "fl x =
     (if x = 0 then 0
      else let e = max (binary_exponent 1100 \<bar>x\<bar>) (- 1022);
               q = pow2 (e - 52)
           in real_of_int (round_half_even (x / q)) * q)"

section \<open>Entity registry and store writes (database.py)\<close>

text \<open>\<^verbatim>\<open>get_cold_room_by_sensor\<close>: \<^verbatim>\<open>SELECT * FROM cold_rooms WHERE sensor_id = ?\<close>,
  \<^verbatim>\<open>fetchone()\<close>. A NULL sensor id matches nothing.\<close>

definition get_cold_room_by_sensor :: "db \<Rightarrow> string \<Rightarrow> cold_room option" where
  "get_cold_room_by_sensor d sid = find (\<lambda>c. room_sensor_id c = Some sid) (cold_rooms d)"

text \<open>\<^verbatim>\<open>insert_temperature_data\<close>: the timestamp column takes its default
  \<^verbatim>\<open>CURRENT_TIMESTAMP\<close>, here the clock value \<open>now\<close>. Returns \<^verbatim>\<open>lastrowid\<close>.\<close>

definition insert_temperature_data :: "int \<Rightarrow> db \<Rightarrow> nat \<Rightarrow> real \<Rightarrow> nat option \<times> db" where
  "insert_temperature_data now d cold_room_id temperature =
     (let i = next_id (map td_id (temperature_data d));
          row = \<lparr>td_id = i, td_cold_room_id = cold_room_id,
                 td_temperature = temperature, td_timestamp = Some now\<rparr>
      in (Some i, d\<lparr>temperature_data := temperature_data d @ [row]\<rparr>))"

text \<open>\<^verbatim>\<open>log_esp32_error\<close>: appends an unresolved error row.\<close>

definition log_esp32_error ::
  "int \<Rightarrow> db \<Rightarrow> string \<Rightarrow> string \<Rightarrow> string \<Rightarrow> string \<Rightarrow> nat option \<times> db" where
  "log_esp32_error now d esp32_mac sensor_id error_type error_message =
     (let i = next_id (map err_id (esp32_errors d));
          row = \<lparr>err_id = i, err_esp32_mac = esp32_mac, err_sensor_id = Some sensor_id,
                 err_error_type = error_type, err_error_message = error_message,
                 err_timestamp = Some now, err_resolved = False\<rparr>
      in (Some i, d\<lparr>esp32_errors := esp32_errors d @ [row]\<rparr>))"

section \<open>Ingestion endpoint (app.py, receive\_esp32\_data)\<close>

text \<open>
  A reading is a JSON object; \<^verbatim>\<open>reading.get(k)\<close> is \<^verbatim>\<open>None\<close> both when the key is absent
  and when its value is null. The request shape of the interface,
  \<^verbatim>\<open>{"sensor_id": string, "temperature": number}\<close>, gives \<^verbatim>\<open>sensor_id\<close> a string and
  \<^verbatim>\<open>temperature\<close> a number; elements and fields of other JSON types are outside the model.
\<close>

record reading =
  r_sensor_id :: "string option"
  r_temperature :: "real option"








text \<open>Python's \<^verbatim>\<open>str\<close> of an optional string and of an optional number inside an f-string.
  The rendering of a number is a parameter \<open>fmt\<close>; it only enters the text of a logged
  message.\<close>

fun str_opt :: "string option \<Rightarrow> string" where
  "str_opt None = ''None''"
| "str_opt (Some s) = s"

fun str_temp :: "(real \<Rightarrow> string) \<Rightarrow> real option \<Rightarrow> string" where
  "str_temp fmt None = ''None''"
| "str_temp fmt (Some t) = fmt t"

text \<open>\<^verbatim>\<open>sensor_id or 'UNKNOWN'\<close>.\<close>

definition sensor_or_unknown :: "string option \<Rightarrow> string" where
  "sensor_or_unknown sid = (if truthy_str sid then the sid else ''UNKNOWN'')"

text \<open>The body of the \<^verbatim>\<open>for reading in readings\<close> loop. The loop state is the database
  with the two counters \<^verbatim>\<open>processed_count\<close> and \<^verbatim>\<open>error_count\<close>.\<close>

definition process_reading ::
  "(real \<Rightarrow> string) \<Rightarrow> int \<Rightarrow> string \<Rightarrow> db \<times> nat \<times> nat \<Rightarrow> reading \<Rightarrow> db \<times> nat \<times> nat" where
  "process_reading fmt now esp32_mac st rd =
     (case st of (d, processed_count, error_count) \<Rightarrow>
      let sensor_id = r_sensor_id rd; temperature = r_temperature rd in
      if truthy_str sensor_id \<and> temperature \<noteq> None then
        (case get_cold_room_by_sensor d (the sensor_id) of
           Some cold_room \<Rightarrow>
             (snd (insert_temperature_data now d (room_id cold_room) (the temperature)),
              processed_count + 1, error_count)
         | None \<Rightarrow>
             (snd (log_esp32_error now d esp32_mac (the sensor_id) ''UNREGISTERED_SENSOR''
                    (''Unregistered sensor_id '' @ [CHR 0x27] @ the sensor_id @ [CHR 0x27]
                       @ '' attempting to send data'')),
              processed_count, error_count + 1))
      else
        (snd (log_esp32_error now d esp32_mac (sensor_or_unknown sensor_id) ''MALFORMED_DATA''
               (''Malformed reading: sensor_id='' @ str_opt sensor_id @ '', temperature=''
                  @ str_temp fmt temperature)),
         processed_count, error_count + 1))"

definition ingest_loop ::
  "(real \<Rightarrow> string) \<Rightarrow> int \<Rightarrow> string \<Rightarrow> db \<times> nat \<times> nat \<Rightarrow> reading list \<Rightarrow> db \<times> nat \<times> nat" where
  "ingest_loop fmt now esp32_mac st readings = foldl (process_reading fmt now esp32_mac) st readings"





section \<open>Time-series reads and liveness (database.py)\<close>

text \<open>\<^verbatim>\<open>format_timestamp_indian\<close> renders a timestamp for display and gives \<^verbatim>\<open>'N/A'\<close> for a
  missing one; the rendering itself is not modelled.\<close>

datatype display_time = NA | At int

fun format_timestamp_indian :: "int option \<Rightarrow> display_time" where
  "format_timestamp_indian None = NA"
| "format_timestamp_indian (Some t) = At t"

record temp_view =
  tv_temperature :: real
  tv_timestamp :: display_time
  tv_seconds_ago :: "real option"
  tv_is_active :: bool

text \<open>SQLite holds an instant as a whole number of milliseconds since the Julian epoch, which
  precedes the Unix epoch by 210866760000 seconds, and \<^verbatim>\<open>julianday\<close> is that number
  divided by 86400000.0, a double. The read clock \<open>now\<close> is in seconds since the Unix epoch
  and may be fractional; the clock of SQLite has millisecond resolution.\<close>

definition julian_ms_of_timestamp :: "int \<Rightarrow> int" where
  "julian_ms_of_timestamp t = (t + 210866760000) * 1000"

definition julian_ms_of_now :: "real \<Rightarrow> int" where
  "julian_ms_of_now now = \<lfloor>now * 1000\<rfloor> + 210866760000000"

definition julianday :: "int \<Rightarrow> real" where
  "julianday ms = fl (real_of_int ms / 86400000)"

text \<open>\<^verbatim>\<open>(julianday('now') - julianday(timestamp)) * 86400\<close>, computed in doubles: NULL for a
  NULL timestamp.\<close>

definition seconds_ago :: "real \<Rightarrow> int option \<Rightarrow> real option" where
  "seconds_ago now ts =
     map_option
       (\<lambda>t. fl (fl (julianday (julian_ms_of_now now) - julianday (julian_ms_of_timestamp t))
                 * 86400))
       ts"

definition temp_view_of :: "real \<Rightarrow> temperature_row \<Rightarrow> temp_view" where
  "temp_view_of now row =
     (let sa = seconds_ago now (td_timestamp row);
          is_active = (sa = None \<or> the sa \<le> 900)
      in \<lparr>tv_temperature = td_temperature row,
          tv_timestamp = format_timestamp_indian (td_timestamp row),
          tv_seconds_ago = sa, tv_is_active = is_active\<rparr>)"

text \<open>\<^verbatim>\<open>get_temperature_data_for_cold_room\<close>; \<^verbatim>\<open>if limit:\<close> treats \<^verbatim>\<open>None\<close> and 0 alike.\<close>

definition get_temperature_data_for_cold_room ::
  "real \<Rightarrow> db \<Rightarrow> nat \<Rightarrow> nat option \<Rightarrow> temp_view list" where
  "get_temperature_data_for_cold_room now d cold_room_id limit =
     (let ordered = sort_desc td_timestamp
                      (filter (\<lambda>r. td_cold_room_id r = cold_room_id) (temperature_data d));
          data = (case limit of
                    None \<Rightarrow> ordered
                  | Some n \<Rightarrow> if n \<noteq> 0 then take n ordered else ordered)
      in map (temp_view_of now) data)"

section \<open>24-hour statistics (database.py, get\_24h\_temperature\_stats)\<close>

text \<open>Python's \<^verbatim>\<open>round(x, ndigits)\<close>: the value of the double \<open>x\<close> rounded to the nearest
  multiple of \<open>10 ^ (- ndigits)\<close>, a tie going to the even neighbour. The result is that
  decimal number, which Python returns as the double nearest to it.\<close>

definition py_round :: "real \<Rightarrow> nat \<Rightarrow> real" where
  "py_round x ndigits = real_of_int (round_half_even (x * 10 ^ ndigits)) / 10 ^ ndigits"

text \<open>Python's \<^verbatim>\<open>min\<close> and \<^verbatim>\<open>max\<close> of a list; \<open>None\<close> is the ValueError on an empty one.\<close>

fun py_min :: "real list \<Rightarrow> real option" where
  "py_min [] = None"
| "py_min (x # xs) = Some (fold min xs x)"

fun py_max :: "real list \<Rightarrow> real option" where
  "py_max [] = None"
| "py_max (x # xs) = Some (fold max xs x)"

record stats_24h =
  avg_temp :: "real option"
  min_temp :: "real option"
  max_temp :: "real option"
  readings_count :: nat
  trend :: string
  last_24h_data :: "(real \<times> display_time) list"

text \<open>The rows of a room inside the window, newest first:
  \<^verbatim>\<open>datetime(timestamp) >= datetime('now', '-24 hours')\<close>, which a NULL timestamp fails.\<close>

definition window_24h :: "real \<Rightarrow> db \<Rightarrow> nat \<Rightarrow> temperature_row list" where
  "window_24h now d cold_room_id =
     sort_desc td_timestamp
       (filter (\<lambda>r. td_cold_room_id r = cold_room_id
                  \<and> (case td_timestamp r of None \<Rightarrow> False | Some t \<Rightarrow> t \<ge> \<lfloor>now\<rfloor> - 86400))
          (temperature_data d))"

text \<open>
  Python's \<^verbatim>\<open>sum\<close> over a list of floats is the parameter \<open>py_sum\<close> of the functions that
  call it: how the additions are rounded depends on the interpreter (one rounding after each
  addition from left to right before Python 3.12, a compensated summation since). Whenever
  the exact sum and every partial sum are doubles, it is the exact sum.
\<close>

text \<open>The trend block. \<^verbatim>\<open>temperatures[:5]\<close> is \<open>take 5\<close>; \<^verbatim>\<open>temperatures[-5:]\<close> is the last
  five elements, or the whole list when it has fewer. The two quotients, the sum with 0.5
  and the difference with 0.5 are each rounded to a double.\<close>

definition compute_trend :: "(real list \<Rightarrow> real) \<Rightarrow> real list \<Rightarrow> string" where
  "compute_trend py_sum temperatures =
     (if length temperatures \<ge> 2 then
        (let recent_avg = fl (py_sum (take 5 temperatures)
                                / real (min 5 (length temperatures)));
             older_avg = fl (py_sum (drop (length temperatures - 5) temperatures)
                               / real (min 5 (length temperatures)))
         in if recent_avg > fl (older_avg + 0.5) then ''rising''
            else if recent_avg < fl (older_avg - 0.5) then ''falling''
            else ''stable'')
      else ''stable'')"

definition get_24h_temperature_stats ::
  "(real list \<Rightarrow> real) \<Rightarrow> real \<Rightarrow> db \<Rightarrow> nat \<Rightarrow> stats_24h" where
  "get_24h_temperature_stats py_sum now d cold_room_id =
     (let data = window_24h now d cold_room_id in
      if data = [] then
        \<lparr>avg_temp = None, min_temp = None, max_temp = None, readings_count = 0,
         trend = ''stable'', last_24h_data = []\<rparr>
      else
        (let temperatures = map td_temperature data;
             avg = fl (py_sum temperatures / real (length temperatures))
         in \<lparr>avg_temp = Some (py_round avg 1),
             min_temp = map_option (\<lambda>m. py_round m 1) (py_min temperatures),
             max_temp = map_option (\<lambda>m. py_round m 1) (py_max temperatures),
             readings_count = length temperatures,
             trend = compute_trend py_sum temperatures,
             last_24h_data =
               map (\<lambda>r. (td_temperature r, format_timestamp_indian (td_timestamp r)))
                 (take 48 data)\<rparr>))"

section \<open>Dashboard of one location (app.py, user\_dashboard)\<close>

definition get_location_by_id :: "db \<Rightarrow> nat \<Rightarrow> location option" where
  "get_location_by_id d location_id = find (\<lambda>l. loc_id l = location_id) (locations d)"

definition get_cold_rooms_by_location :: "db \<Rightarrow> nat \<Rightarrow> cold_room list" where
  "get_cold_rooms_by_location d location_id =
     filter (\<lambda>c. room_location_id c = location_id) (cold_rooms d)"

text \<open>Python truthiness of an optional number: \<^verbatim>\<open>None\<close> and zero are falsy.\<close>

fun truthy_num :: "real option \<Rightarrow> bool" where
  "truthy_num None = False"
| "truthy_num (Some x) = (x \<noteq> 0)"

record room_view =
  rv_room :: cold_room
  latest_temp :: "real option"
  latest_time :: "display_time option"
  is_sensor_active :: bool
  minutes_ago :: "real option"
  rv_stats :: stats_24h
  temp_status :: string

text \<open>The part of a \<^verbatim>\<open>room_dict\<close> taken from the newest sample,
  \<^verbatim>\<open>get_temperature_data_for_cold_room(room['id'], limit=1)\<close>.\<close>

definition latest_status ::
  "real \<Rightarrow> db \<Rightarrow> nat \<Rightarrow> real option \<times> display_time option \<times> bool \<times> real option" where
  "latest_status now d cold_room_id =
     (case get_temperature_data_for_cold_room now d cold_room_id (Some 1) of
        [] \<Rightarrow> (None, None, False, None)
      | latest # _ \<Rightarrow>
          (if tv_is_active latest then Some (tv_temperature latest) else None,
           Some (tv_timestamp latest),
           tv_is_active latest,
           Some (if truthy_num (tv_seconds_ago latest)
                 then py_round (fl (the (tv_seconds_ago latest) / 60)) 1 else 0)))"

definition classify_temp_status :: "real option \<Rightarrow> bool \<Rightarrow> string" where
  "classify_temp_status temp active =
     (if temp \<noteq> None \<and> active then
        (if - 5 \<le> the temp \<and> the temp \<le> 5 then ''normal'' else ''alert'')
      else ''offline'')"

text \<open>The accumulators of the loop over the rooms of the location.\<close>

record dash_acc =
  room_data :: "room_view list"
  all_active_temps :: "real list"
  all_24h_temps :: "real list"
  most_recent_time :: "display_time option"
  most_recent_minutes_ago :: "real option"

definition dashboard_room ::
  "(real list \<Rightarrow> real) \<Rightarrow> real \<Rightarrow> db \<Rightarrow> dash_acc \<Rightarrow> cold_room \<Rightarrow> dash_acc" where
  "dashboard_room py_sum now d acc room =
     (let latest_data = get_temperature_data_for_cold_room now d (room_id room) (Some 1);
          (lt, ltime, active, mins) = latest_status now d (room_id room);
          acc1 =
            (case latest_data of
               [] \<Rightarrow> acc
             | latest # _ \<Rightarrow>
                 if tv_is_active latest then
                   (let acc' = acc\<lparr>all_active_temps :=
                                     all_active_temps acc @ [tv_temperature latest]\<rparr>;
                        sa = tv_seconds_ago latest
                    in if most_recent_time acc = None
                          \<or> (\<not> truthy_num (most_recent_minutes_ago acc))
                          \<or> (if truthy_num sa then the sa else 0)
                               < the (most_recent_minutes_ago acc)
                       then acc'\<lparr>most_recent_time := Some (tv_timestamp latest),
                                 most_recent_minutes_ago := sa\<rparr>
                       else acc')
                 else acc);
          stats = get_24h_temperature_stats py_sum now d (room_id room);
          acc2 = acc1\<lparr>all_24h_temps := all_24h_temps acc1 @ map fst (last_24h_data stats)\<rparr>;
          rv = \<lparr>rv_room = room, latest_temp = lt, latest_time = ltime,
                is_sensor_active = active, minutes_ago = mins, rv_stats = stats,
                temp_status = classify_temp_status lt active\<rparr>
      in acc2\<lparr>room_data := room_data acc2 @ [rv]\<rparr>)"

record combined_stats =
  live_temp :: "real option"
  avg_24h :: "real option"
  min_24h :: "real option"
  max_24h :: "real option"
  last_update :: "display_time option"
  cs_minutes_ago :: "real option"
  online_count :: nat
  total_count :: nat

definition combine_stats :: "(real list \<Rightarrow> real) \<Rightarrow> dash_acc \<Rightarrow> combined_stats" where
  "combine_stats py_sum acc =
     \<lparr>live_temp = (if all_active_temps acc \<noteq> []
                    then Some (py_round (fl (py_sum (all_active_temps acc)
                                              / real (length (all_active_temps acc)))) 1)
                    else None),
      avg_24h = (if all_24h_temps acc \<noteq> []
                  then Some (py_round (fl (py_sum (all_24h_temps acc)
                                            / real (length (all_24h_temps acc)))) 1)
                  else None),
      min_24h = map_option (\<lambda>m. py_round m 1) (py_min (all_24h_temps acc)),
      max_24h = map_option (\<lambda>m. py_round m 1) (py_max (all_24h_temps acc)),
      last_update = most_recent_time acc,
      cs_minutes_ago = (if truthy_num (most_recent_minutes_ago acc)
                         then Some (py_round (fl (the (most_recent_minutes_ago acc) / 60)) 1)
                         else None),
      online_count = length (filter is_sensor_active (room_data acc)),
      total_count = length (room_data acc)\<rparr>"

text \<open>The branch of \<^verbatim>\<open>user_dashboard\<close> for a user assigned to a location; \<open>None\<close> is the
  page shown when the location does not exist.\<close>

definition user_dashboard ::
  "(real list \<Rightarrow> real) \<Rightarrow> real \<Rightarrow> db \<Rightarrow> nat \<Rightarrow> (room_view list \<times> combined_stats) option" where
  "user_dashboard py_sum now d location_id =
     (case get_location_by_id d location_id of
        None \<Rightarrow> None
      | Some location \<Rightarrow>
          (let acc = foldl (dashboard_room py_sum now d)
                       \<lparr>room_data = [], all_active_temps = [], all_24h_temps = [],
                        most_recent_time = None, most_recent_minutes_ago = None\<rparr>
                       (get_cold_rooms_by_location d (loc_id location))
           in Some (room_data acc, combine_stats py_sum acc)))"

section \<open>Export and aggregation (app.py, get\_temperature\_data\_with\_filters)\<close>

text \<open>\<^verbatim>\<open>DATE(timestamp)\<close> is the day number of a timestamp. A request parameter that is
  absent or empty is \<open>None\<close> (\<^verbatim>\<open>if date_from:\<close>); a comparison with a NULL date fails.\<close>

definition date_filter :: "int option \<Rightarrow> int option \<Rightarrow> int option \<Rightarrow> bool" where
  "date_filter date_from date_to ts =
     ((case date_from of None \<Rightarrow> True
        | Some f \<Rightarrow> (case ts of None \<Rightarrow> False | Some t \<Rightarrow> t div 86400 \<ge> f))
      \<and> (case date_to of None \<Rightarrow> True
          | Some u \<Rightarrow> (case ts of None \<Rightarrow> False | Some t \<Rightarrow> t div 86400 \<le> u)))"

definition filtered_rows :: "db \<Rightarrow> nat \<Rightarrow> int option \<Rightarrow> int option \<Rightarrow> temperature_row list" where
  "filtered_rows d cold_room_id date_from date_to =
     filter (\<lambda>r. td_cold_room_id r = cold_room_id \<and> date_filter date_from date_to (td_timestamp r))
       (temperature_data d)"

text \<open>\<^verbatim>\<open>strftime('%Y-%m-%d %H:00:00', timestamp)\<close> and \<^verbatim>\<open>DATE(timestamp)\<close> as the first
  second of the hour and of the day.\<close>

definition hour_bucket :: "int option \<Rightarrow> int option" where
  "hour_bucket ts = map_option (\<lambda>t. (t div 3600) * 3600) ts"

definition day_bucket :: "int option \<Rightarrow> int option" where
  "day_bucket ts = map_option (\<lambda>t. (t div 86400) * 86400) ts"

text \<open>\<^verbatim>\<open>GROUP BY\<close>: every row is stepped into the group of its key; a group holds the
  temperatures of its rows, in the order of the table.\<close>

fun agg_step :: "'k \<Rightarrow> real \<Rightarrow> ('k \<times> real list) list \<Rightarrow> ('k \<times> real list) list" where
  "agg_step k v [] = [(k, [v])]"
| "agg_step k v ((k', vs) # rest) =
     (if k = k' then (k', vs @ [v]) # rest else (k', vs) # agg_step k v rest)"

definition group_rows ::
  "(int option \<Rightarrow> 'k) \<Rightarrow> temperature_row list \<Rightarrow> ('k \<times> real list) list" where
  "group_rows bucket rows =
     fold (\<lambda>r. agg_step (bucket (td_timestamp r)) (td_temperature r)) rows []"

record agg_row =
  ar_timestamp :: "int option"
  ar_temperature :: real
  ar_min_temp :: real
  ar_max_temp :: real
  ar_readings :: nat

text \<open>
  The aggregates of a group. \<^verbatim>\<open>AVG\<close> of SQLite, the mean of the values of the group
  computed in doubles, is the parameter \<open>sql_avg\<close>: how its summation is rounded differs
  between versions of SQLite. \<^verbatim>\<open>MIN\<close>, \<^verbatim>\<open>MAX\<close> and \<^verbatim>\<open>COUNT(*)\<close> are exact.
\<close>

definition agg_row_of :: "(real list \<Rightarrow> real) \<Rightarrow> int option \<times> real list \<Rightarrow> agg_row" where
  "agg_row_of sql_avg g =
     (case g of (k, vs) \<Rightarrow>
        \<lparr>ar_timestamp = k, ar_temperature = sql_avg vs, ar_min_temp = Min (set vs),
         ar_max_temp = Max (set vs), ar_readings = length vs\<rparr>)"

text \<open>\<^verbatim>\<open>ORDER BY timestamp DESC\<close> on the grouped rows orders them by their bucket.\<close>

definition aggregate ::
  "(real list \<Rightarrow> real) \<Rightarrow> (int option \<Rightarrow> int option) \<Rightarrow> temperature_row list
     \<Rightarrow> agg_row list" where
  "aggregate sql_avg bucket rows =
     map (agg_row_of sql_avg) (sort_desc fst (group_rows bucket rows))"

datatype export_data =
  Full "(int option \<times> real) list"
| Aggregated "agg_row list"

text \<open>\<open>None\<close> is the Python \<^verbatim>\<open>None\<close> the function returns for any other aggregation.\<close>

definition get_temperature_data_with_filters ::
  "(real list \<Rightarrow> real) \<Rightarrow> db \<Rightarrow> nat \<Rightarrow> int option \<Rightarrow> int option \<Rightarrow> string
     \<Rightarrow> export_data option" where
  "get_temperature_data_with_filters sql_avg d cold_room_id date_from date_to aggregation =
     (let rows = filtered_rows d cold_room_id date_from date_to in
      if aggregation = ''full'' then
        Some (Full (map (\<lambda>r. (td_timestamp r, td_temperature r)) (sort_desc td_timestamp rows)))
      else if aggregation = ''hourly''
        then Some (Aggregated (aggregate sql_avg hour_bucket rows))
      else if aggregation = ''daily''
        then Some (Aggregated (aggregate sql_avg day_bucket rows))
      else None)"

text \<open>\<^verbatim>\<open>export_to_csv\<close>: the rows handed to the CSV writer, header first. \<open>None\<close> is the
  exception raised when the data does not have the keys the branch reads.\<close>

datatype cell = Text string | Time "int option" | Number real | Count nat

text \<open>The two header rows; \<open>CHR 0xB0\<close> is the degree sign.\<close>

definition full_header :: "cell list" where
  "full_header = [Text ''Timestamp'', Text (''Temperature ('' @ [CHR 0xB0] @ ''C)'')]"

definition aggregated_header :: "cell list" where
  "aggregated_header =
     [Text ''Timestamp'', Text (''Average Temperature ('' @ [CHR 0xB0] @ ''C)''),
      Text (''Min Temperature ('' @ [CHR 0xB0] @ ''C)''),
      Text (''Max Temperature ('' @ [CHR 0xB0] @ ''C)''),
      Text ''Number of Readings'']"

definition export_to_csv :: "export_data option \<Rightarrow> string \<Rightarrow> cell list list option" where
  "export_to_csv data aggregation =
     (if aggregation = ''full'' then
        (case data of
           None \<Rightarrow> None
         | Some (Full rows) \<Rightarrow>
             Some (full_header # map (\<lambda>(ts, t). [Time ts, Number t]) rows)
         | Some (Aggregated rows) \<Rightarrow>
             Some (full_header
                   # map (\<lambda>r. [Time (ar_timestamp r), Number (ar_temperature r)]) rows))
      else
        (case data of
           None \<Rightarrow> None
         | Some (Full rows) \<Rightarrow> (if rows = [] then Some [aggregated_header] else None)
         | Some (Aggregated rows) \<Rightarrow>
             Some (aggregated_header
                   # map (\<lambda>r. [Time (ar_timestamp r),
                                Number (py_round (ar_temperature r) 2),
                                Number (py_round (ar_min_temp r) 2),
                                Number (py_round (ar_max_temp r) 2),
                                Count (ar_readings r)]) rows)))"

text \<open>The \<^verbatim>\<open>try\<close> block of \<^verbatim>\<open>export_cold_room_data\<close> with the default format, which the route
  reaches once it has found the room: the query, then the CSV.\<close>

definition export_csv ::
  "(real list \<Rightarrow> real) \<Rightarrow> db \<Rightarrow> nat \<Rightarrow> int option \<Rightarrow> int option \<Rightarrow> string
     \<Rightarrow> cell list list option" where
  "export_csv sql_avg d cold_room_id date_from date_to aggregation =
     export_to_csv
       (get_temperature_data_with_filters sql_avg d cold_room_id date_from date_to aggregation)
       aggregation"

section \<open>Error log (database.py)\<close>

record error_view =
  ev_id :: nat
  ev_esp32_mac :: string
  ev_error_type :: string
  ev_error_message :: string
  ev_timestamp :: display_time
  ev_resolved :: bool

definition get_cold_room_by_id :: "db \<Rightarrow> nat \<Rightarrow> cold_room option" where
  "get_cold_room_by_id d cold_room_id = find (\<lambda>c. room_id c = cold_room_id) (cold_rooms d)"

definition get_esp32_errors_for_cold_room :: "db \<Rightarrow> nat \<Rightarrow> nat \<Rightarrow> error_view list" where
  "get_esp32_errors_for_cold_room d cold_room_id limit =
     (case get_cold_room_by_id d cold_room_id of
        None \<Rightarrow> []
      | Some cold_room \<Rightarrow>
          if \<not> truthy_str (room_sensor_id cold_room) then []
          else
            map (\<lambda>e. \<lparr>ev_id = err_id e, ev_esp32_mac = err_esp32_mac e,
                       ev_error_type = err_error_type e,
                       ev_error_message = err_error_message e,
                       ev_timestamp = format_timestamp_indian (err_timestamp e),
                       ev_resolved = err_resolved e\<rparr>)
              (take limit
                 (sort_desc err_timestamp
                    (filter (\<lambda>e. err_sensor_id e = room_sensor_id cold_room \<and> \<not> err_resolved e)
                       (esp32_errors d)))))"

record unresolved_view =
  uv_id :: nat
  uv_esp32_mac :: string
  uv_sensor_id :: "string option"
  uv_cold_room_name :: string
  uv_location_name :: string
  uv_error_type :: string
  uv_error_message :: string
  uv_timestamp :: display_time

text \<open>\<^verbatim>\<open>LEFT JOIN\<close>: every left row paired with each matching right row, or with NULL when
  none matches.\<close>

definition left_join :: "('a \<Rightarrow> 'b \<Rightarrow> bool) \<Rightarrow> 'a list \<Rightarrow> 'b list \<Rightarrow> ('a \<times> 'b option) list" where
  "left_join on xs ys =
     concat (map (\<lambda>x. case filter (on x) ys of
                          [] \<Rightarrow> [(x, None)]
                        | ms \<Rightarrow> map (\<lambda>y. (x, Some y)) ms) xs)"

text \<open>\<^verbatim>\<open>name or 'Unknown ...'\<close>.\<close>

definition name_or :: "string option \<Rightarrow> string \<Rightarrow> string" where
  "name_or n dflt = (if truthy_str n then the n else dflt)"

definition get_all_unresolved_errors :: "db \<Rightarrow> unresolved_view list" where
  "get_all_unresolved_errors d =
     (let j1 = left_join (\<lambda>e c. err_sensor_id e \<noteq> None \<and> err_sensor_id e = room_sensor_id c)
                 (esp32_errors d) (cold_rooms d);
          j2 = left_join (\<lambda>(e, c) l. c \<noteq> None \<and> room_location_id (the c) = loc_id l)
                 j1 (locations d);
          rows = sort_desc (\<lambda>((e, c), l). err_timestamp e)
                   (filter (\<lambda>((e, c), l). \<not> err_resolved e) j2)
      in map (\<lambda>((e, c), l).
                \<lparr>uv_id = err_id e, uv_esp32_mac = err_esp32_mac e,
                 uv_sensor_id = err_sensor_id e,
                 uv_cold_room_name = name_or (map_option room_name c) ''Unknown Room'',
                 uv_location_name = name_or (map_option loc_name l) ''Unknown Location'',
                 uv_error_type = err_error_type e,
                 uv_error_message = err_error_message e,
                 uv_timestamp = format_timestamp_indian (err_timestamp e)\<rparr>) rows)"

text \<open>\<^verbatim>\<open>resolve_esp32_error\<close>: \<^verbatim>\<open>UPDATE esp32_errors SET resolved = 1 WHERE id = ?\<close>; the
  returned flag is \<^verbatim>\<open>True\<close>.\<close>

definition resolve_esp32_error :: "db \<Rightarrow> nat \<Rightarrow> bool \<times> db" where
  "resolve_esp32_error d error_id =
     (True, d\<lparr>esp32_errors :=
                map (\<lambda>e. if err_id e = error_id then e\<lparr>err_resolved := True\<rparr> else e)
                  (esp32_errors d)\<rparr>)"

section \<open>Specification-side notions and example stores\<close>


text \<open>A registry with one location and one room, whose sensor is \<^verbatim>\<open>S1\<close>.\<close>

definition registry_db :: db where
  "registry_db = \<lparr>locations = [\<lparr>loc_id = 1, loc_name = ''Depot''\<rparr>],
     cold_rooms = [\<lparr>room_id = 7, room_name = ''Room A'', room_location_id = 1,
                     room_sensor_id = Some ''S1''\<rparr>],
     temperature_data = [], esp32_errors = []\<rparr>"

text \<open>That room with one sample, stored 100 seconds after the Unix epoch.\<close>

definition row_at_100 :: temperature_row where
  "row_at_100 = \<lparr>td_id = 1, td_cold_room_id = 7, td_temperature = 3.5, td_timestamp = Some 100\<rparr>"

definition db_one_sample :: db where
  "db_one_sample = registry_db\<lparr>temperature_data := [row_at_100]\<rparr>"

text \<open>The mean of a list in exact arithmetic, the mean as the program computes it in doubles,
  and the first and the last up to \<open>n\<close> elements of a list.\<close>

definition spec_mean :: "real list \<Rightarrow> real" where
  "spec_mean xs = sum_list xs / real (length xs)"

definition float_mean :: "(real list \<Rightarrow> real) \<Rightarrow> real list \<Rightarrow> real" where
  "float_mean py_sum xs = fl (py_sum xs / real (length xs))"

definition spec_first_up_to :: "nat \<Rightarrow> 'a list \<Rightarrow> 'a list" where
  "spec_first_up_to n xs = take n xs"

definition spec_last_up_to :: "nat \<Rightarrow> 'a list \<Rightarrow> 'a list" where
  "spec_last_up_to n xs = rev (take n (rev xs))"

text \<open>That room with one sample of 0.125 degrees.\<close>

definition db_one_eighth :: db where
  "db_one_eighth = registry_db\<lparr>temperature_data :=
     [\<lparr>td_id = 1, td_cold_room_id = 7, td_temperature = 1 / 8, td_timestamp = Some 4000\<rparr>]\<rparr>"








definition db_one_error :: db where
  "db_one_error = registry_db\<lparr>esp32_errors :=
     [\<lparr>err_id = 1, err_esp32_mac = ''AA:BB'', err_sensor_id = Some ''S1'',
       err_error_type = ''MALFORMED_DATA'', err_error_message = ''Malformed reading'',
       err_timestamp = Some 50, err_resolved = False\<rparr>]\<rparr>"


text \<open>That room with 49 samples stored in consecutive seconds, the oldest at -30 degrees
  and the 48 newer ones at 2 degrees.\<close>

definition db_49_samples :: db where
  "db_49_samples = registry_db\<lparr>temperature_data :=
     [\<lparr>td_id = 1, td_cold_room_id = 7, td_temperature = - 30, td_timestamp = Some 1\<rparr>,
      \<lparr>td_id = 2, td_cold_room_id = 7, td_temperature = 2, td_timestamp = Some 2\<rparr>,
      \<lparr>td_id = 3, td_cold_room_id = 7, td_temperature = 2, td_timestamp = Some 3\<rparr>,
      \<lparr>td_id = 4, td_cold_room_id = 7, td_temperature = 2, td_timestamp = Some 4\<rparr>,
      \<lparr>td_id = 5, td_cold_room_id = 7, td_temperature = 2, td_timestamp = Some 5\<rparr>,
      \<lparr>td_id = 6, td_cold_room_id = 7, td_temperature = 2, td_timestamp = Some 6\<rparr>,
      \<lparr>td_id = 7, td_cold_room_id = 7, td_temperature = 2, td_timestamp = Some 7\<rparr>,
      \<lparr>td_id = 8, td_cold_room_id = 7, td_temperature = 2, td_timestamp = Some 8\<rparr>,
      \<lparr>td_id = 9, td_cold_room_id = 7, td_temperature = 2, td_timestamp = Some 9\<rparr>,
      \<lparr>td_id = 10, td_cold_room_id = 7, td_temperature = 2, td_timestamp = Some 10\<rparr>,
      \<lparr>td_id = 11, td_cold_room_id = 7, td_temperature = 2, td_timestamp = Some 11\<rparr>,
      \<lparr>td_id = 12, td_cold_room_id = 7, td_temperature = 2, td_timestamp = Some 12\<rparr>,
      \<lparr>td_id = 13, td_cold_room_id = 7, td_temperature = 2, td_timestamp = Some 13\<rparr>,
      \<lparr>td_id = 14, td_cold_room_id = 7, td_temperature = 2, td_timestamp = Some 14\<rparr>,
      \<lparr>td_id = 15, td_cold_room_id = 7, td_temperature = 2, td_timestamp = Some 15\<rparr>,
      \<lparr>td_id = 16, td_cold_room_id = 7, td_temperature = 2, td_timestamp = Some 16\<rparr>,
      \<lparr>td_id = 17, td_cold_room_id = 7, td_temperature = 2, td_timestamp = Some 17\<rparr>,
      \<lparr>td_id = 18, td_cold_room_id = 7, td_temperature = 2, td_timestamp = Some 18\<rparr>,
      \<lparr>td_id = 19, td_cold_room_id = 7, td_temperature = 2, td_timestamp = Some 19\<rparr>,
      \<lparr>td_id = 20, td_cold_room_id = 7, td_temperature = 2, td_timestamp = Some 20\<rparr>,
      \<lparr>td_id = 21, td_cold_room_id = 7, td_temperature = 2, td_timestamp = Some 21\<rparr>,
      \<lparr>td_id = 22, td_cold_room_id = 7, td_temperature = 2, td_timestamp = Some 22\<rparr>,
      \<lparr>td_id = 23, td_cold_room_id = 7, td_temperature = 2, td_timestamp = Some 23\<rparr>,
      \<lparr>td_id = 24, td_cold_room_id = 7, td_temperature = 2, td_timestamp = Some 24\<rparr>,
      \<lparr>td_id = 25, td_cold_room_id = 7, td_temperature = 2, td_timestamp = Some 25\<rparr>,
      \<lparr>td_id = 26, td_cold_room_id = 7, td_temperature = 2, td_timestamp = Some 26\<rparr>,
      \<lparr>td_id = 27, td_cold_room_id = 7, td_temperature = 2, td_timestamp = Some 27\<rparr>,
      \<lparr>td_id = 28, td_cold_room_id = 7, td_temperature = 2, td_timestamp = Some 28\<rparr>,
      \<lparr>td_id = 29, td_cold_room_id = 7, td_temperature = 2, td_timestamp = Some 29\<rparr>,
      \<lparr>td_id = 30, td_cold_room_id = 7, td_temperature = 2, td_timestamp = Some 30\<rparr>,
      \<lparr>td_id = 31, td_cold_room_id = 7, td_temperature = 2, td_timestamp = Some 31\<rparr>,
      \<lparr>td_id = 32, td_cold_room_id = 7, td_temperature = 2, td_timestamp = Some 32\<rparr>,
      \<lparr>td_id = 33, td_cold_room_id = 7, td_temperature = 2, td_timestamp = Some 33\<rparr>,
      \<lparr>td_id = 34, td_cold_room_id = 7, td_temperature = 2, td_timestamp = Some 34\<rparr>,
      \<lparr>td_id = 35, td_cold_room_id = 7, td_temperature = 2, td_timestamp = Some 35\<rparr>,
      \<lparr>td_id = 36, td_cold_room_id = 7, td_temperature = 2, td_timestamp = Some 36\<rparr>,
      \<lparr>td_id = 37, td_cold_room_id = 7, td_temperature = 2, td_timestamp = Some 37\<rparr>,
      \<lparr>td_id = 38, td_cold_room_id = 7, td_temperature = 2, td_timestamp = Some 38\<rparr>,
      \<lparr>td_id = 39, td_cold_room_id = 7, td_temperature = 2, td_timestamp = Some 39\<rparr>,
      \<lparr>td_id = 40, td_cold_room_id = 7, td_temperature = 2, td_timestamp = Some 40\<rparr>,
      \<lparr>td_id = 41, td_cold_room_id = 7, td_temperature = 2, td_timestamp = Some 41\<rparr>,
      \<lparr>td_id = 42, td_cold_room_id = 7, td_temperature = 2, td_timestamp = Some 42\<rparr>,
      \<lparr>td_id = 43, td_cold_room_id = 7, td_temperature = 2, td_timestamp = Some 43\<rparr>,
      \<lparr>td_id = 44, td_cold_room_id = 7, td_temperature = 2, td_timestamp = Some 44\<rparr>,
      \<lparr>td_id = 45, td_cold_room_id = 7, td_temperature = 2, td_timestamp = Some 45\<rparr>,
      \<lparr>td_id = 46, td_cold_room_id = 7, td_temperature = 2, td_timestamp = Some 46\<rparr>,
      \<lparr>td_id = 47, td_cold_room_id = 7, td_temperature = 2, td_timestamp = Some 47\<rparr>,
      \<lparr>td_id = 48, td_cold_room_id = 7, td_temperature = 2, td_timestamp = Some 48\<rparr>,
      \<lparr>td_id = 49, td_cold_room_id = 7, td_temperature = 2, td_timestamp = Some 49\<rparr>]\<rparr>"

section \<open>Verified properties\<close>

subsection \<open>Evaluation of double-precision arithmetic\<close>

lemma binary_exponent_numeral:
  "binary_exponent (numeral k) x =
     (if 2 \<le> x then binary_exponent (pred_numeral k) (x / 2) + 1
      else if x < 1 then binary_exponent (pred_numeral k) (x * 2) - 1
      else 0)"
  by (simp add: numeral_eq_Suc)

lemmas fl_eval = fl_def binary_exponent_numeral pow2_def round_half_even_def Let_def

lemma julianday_now_999: "julianday (julian_ms_of_now 999) = 655140221574185 / 2 ^ 28"
  by (simp add: julianday_def julian_ms_of_now_def fl_eval)

lemma julianday_now_1000: "julianday (julian_ms_of_now 1000) = 5241121772618335 / 2 ^ 31"
  by (simp add: julianday_def julian_ms_of_now_def fl_eval)

lemma julianday_now_1001: "julianday (julian_ms_of_now 1001) = 2620560886321595 / 2 ^ 30"
  by (simp add: julianday_def julian_ms_of_now_def fl_eval)

lemma julianday_timestamp_100:
  "julianday (julian_ms_of_timestamp 100) = 5241121750248713 / 2 ^ 31"
  by (simp add: julianday_def julian_ms_of_timestamp_def fl_eval)

lemma seconds_ago_999: "seconds_ago 999 (Some 100) = Some (15082717725 / 2 ^ 24)"
  by (simp add: seconds_ago_def julianday_now_999 julianday_timestamp_100 fl_eval)

lemma seconds_ago_1000: "seconds_ago 1000 (Some 100) = Some (7549747425 / 2 ^ 23)"
  by (simp add: seconds_ago_def julianday_now_1000 julianday_timestamp_100 fl_eval)

lemma seconds_ago_1001: "seconds_ago 1001 (Some 100) = Some (15116271975 / 2 ^ 24)"
  by (simp add: seconds_ago_def julianday_now_1001 julianday_timestamp_100 fl_eval)

subsection \<open>Liveness of a sample without an age\<close>






subsection \<open>Liveness of the newest sample\<close>

lemma sorted_map_le_last:
  "sorted (map k ys) \<Longrightarrow> y \<in> set ys \<Longrightarrow> k y \<le> k (last ys)"
  by (induction ys) auto

lemma set_sort_desc: "set (sort_desc k xs) = set xs"
  by (simp add: sort_desc_def)

lemma sort_desc_Nil_iff: "sort_desc k xs = [] \<longleftrightarrow> xs = []"
  using set_sort_desc [of k xs] by (metis set_empty)

lemma sort_desc_hd_max:
  assumes "x \<in> set xs"
  shows "k x \<le> k (hd (sort_desc k xs))"
proof -
  let ?ys = "sort_key k (rev xs)"
  have ne: "?ys \<noteq> []" using assms by (metis empty_iff set_empty set_rev set_sort)
  have "hd (sort_desc k xs) = last ?ys" using ne by (simp add: sort_desc_def hd_rev)
  moreover have "k x \<le> k (last ?ys)"
    using assms by (intro sorted_map_le_last) simp_all
  ultimately show ?thesis by simp
qed

lemma seconds_ago_Some: "seconds_ago now (Some t) \<noteq> None"
  by (simp add: seconds_ago_def)

lemma latest_view:
  assumes "row \<in> set (temperature_data d)" "td_cold_room_id row = r"
  shows "\<exists>row'. row' \<in> set (temperature_data d) \<and> td_cold_room_id row' = r
           \<and> td_timestamp row \<le> td_timestamp row'
           \<and> get_temperature_data_for_cold_room now d r (Some 1) = [temp_view_of now row']"
proof -
  let ?rows = "filter (\<lambda>r'. td_cold_room_id r' = r) (temperature_data d)"
  let ?ordered = "sort_desc td_timestamp ?rows"
  have mem: "row \<in> set ?rows" using assms by simp
  then have ne: "?ordered \<noteq> []" using assms sort_desc_Nil_iff [of td_timestamp ?rows]
    by (auto simp: filter_empty_conv)
  then have "hd ?ordered \<in> set ?ordered" by simp
  then have hd_in: "hd ?ordered \<in> set ?rows" by (simp only: set_sort_desc)
  have le: "td_timestamp row \<le> td_timestamp (hd ?ordered)"
    using mem by (rule sort_desc_hd_max)
  have tk: "take 1 ?ordered = [hd ?ordered]" using ne by (cases ?ordered) simp_all
  have "get_temperature_data_for_cold_room now d r (Some 1) = [temp_view_of now (hd ?ordered)]"
    by (simp add: get_temperature_data_for_cold_room_def tk del: One_nat_def)
  with hd_in le show ?thesis by auto
qed

text \<open>
  Claim C3, amended. For a room whose newest stored sample carries the timestamp \<open>t\<close>, the
  status the dashboard derives from \<^verbatim>\<open>get_temperature_data_for_cold_room(room, limit=1)\<close>
  is live exactly when the age that the query computes in doubles,
  \<^verbatim>\<open>(julianday('now') - julianday(timestamp)) * 86400\<close>, is at most 900; when it is not live
  the reported temperature is \<^verbatim>\<open>None\<close>, and when it is live the reported temperature is the
  stored value of a sample of that room with that newest timestamp.
\<close>

theorem latest_status_live_iff:
  assumes "row \<in> set (temperature_data d)" and "td_cold_room_id row = r"
    and "td_timestamp row = Some t"
    and "\<forall>r' \<in> set (temperature_data d). td_cold_room_id r' = r \<longrightarrow> td_timestamp r' \<le> Some t"
  shows "(fst (snd (snd (latest_status now d r))) \<longleftrightarrow> the (seconds_ago now (Some t)) \<le> 900)
    \<and> (\<not> the (seconds_ago now (Some t)) \<le> 900 \<longrightarrow> fst (latest_status now d r) = None)
    \<and> (the (seconds_ago now (Some t)) \<le> 900 \<longrightarrow>
         (\<exists>row' \<in> set (temperature_data d). td_cold_room_id row' = r
            \<and> td_timestamp row' = Some t
            \<and> fst (latest_status now d r) = Some (td_temperature row')))"
proof -
  from latest_view [OF assms(1,2), of now] obtain row' where
    r': "row' \<in> set (temperature_data d)" "td_cold_room_id row' = r"
    and le: "td_timestamp row \<le> td_timestamp row'"
    and g: "get_temperature_data_for_cold_room now d r (Some 1) = [temp_view_of now row']"
    by blast
  from assms(4) r' have "td_timestamp row' \<le> Some t" by blast
  with le assms(3) have ts: "td_timestamp row' = Some t" by simp
  have act: "tv_is_active (temp_view_of now row') \<longleftrightarrow> the (seconds_ago now (Some t)) \<le> 900"
    by (simp add: temp_view_of_def ts Let_def seconds_ago_Some)
  have tmp: "tv_temperature (temp_view_of now row') = td_temperature row'"
    by (simp add: temp_view_of_def Let_def)
  have 1: "fst (snd (snd (latest_status now d r))) \<longleftrightarrow> the (seconds_ago now (Some t)) \<le> 900"
    using act unfolding latest_status_def g by simp
  have 2: "\<not> the (seconds_ago now (Some t)) \<le> 900 \<longrightarrow> fst (latest_status now d r) = None"
    using act unfolding latest_status_def g by simp
  have "the (seconds_ago now (Some t)) \<le> 900 \<longrightarrow> fst (latest_status now d r) = Some (td_temperature row')"
    using act tmp unfolding latest_status_def g by simp
  with r' ts have 3: "the (seconds_ago now (Some t)) \<le> 900 \<longrightarrow>
         (\<exists>row' \<in> set (temperature_data d). td_cold_room_id row' = r
            \<and> td_timestamp row' = Some t
            \<and> fst (latest_status now d r) = Some (td_temperature row'))" by blast
  from 1 2 3 show ?thesis by (intro conjI)
qed

lemma db_one_sample_newest:
  "row_at_100 \<in> set (temperature_data db_one_sample) \<and> td_cold_room_id row_at_100 = 7
   \<and> td_timestamp row_at_100 = Some 100
   \<and> (\<forall>r' \<in> set (temperature_data db_one_sample).
         td_cold_room_id r' = 7 \<longrightarrow> td_timestamp r' \<le> Some 100)"
  by (simp add: db_one_sample_def row_at_100_def)

theorem latest_status_live_iff_witness:
  "fst (snd (snd (latest_status 999 db_one_sample 7)))
   \<and> fst (latest_status 999 db_one_sample 7) = Some 3.5
   \<and> \<not> fst (snd (snd (latest_status 1001 db_one_sample 7)))
   \<and> fst (latest_status 1001 db_one_sample 7) = None"
  using latest_status_live_iff [of row_at_100 db_one_sample 7 100 999]
    latest_status_live_iff [of row_at_100 db_one_sample 7 100 1001]
    db_one_sample_newest
  by (simp add: seconds_ago_999 seconds_ago_1001 db_one_sample_def row_at_100_def)

lemma latest_status_1000:
  "latest_status 1000 db_one_sample 7
   = (None, Some (At 100), False, Some (py_round (fl (7549747425 / 2 ^ 23 / 60)) 1))"
  by (simp add: latest_status_def get_temperature_data_for_cold_room_def db_one_sample_def
      registry_db_def row_at_100_def sort_desc_def temp_view_of_def seconds_ago_1000)

text \<open>
  Claim C3 as stated, with the age taken as the difference of the two instants, fails for
  the sample stored at second 100 and read at second 1000: it is exactly 900 seconds old,
  the query computes the age 900.0000268, and the room is reported not live.
\<close>

theorem latest_status_exact_age_counterexample:
  "\<not> (\<forall>now d r row t.
        row \<in> set (temperature_data d) \<and> td_cold_room_id row = r
        \<and> td_timestamp row = Some t
        \<and> (\<forall>r' \<in> set (temperature_data d).
              td_cold_room_id r' = r \<longrightarrow> td_timestamp r' \<le> Some t)
      \<longrightarrow> (fst (snd (snd (latest_status now d r))) \<longleftrightarrow> now - real_of_int t \<le> 900))"
proof
  assume a: "\<forall>now d r row t.
        row \<in> set (temperature_data d) \<and> td_cold_room_id row = r
        \<and> td_timestamp row = Some t
        \<and> (\<forall>r' \<in> set (temperature_data d).
              td_cold_room_id r' = r \<longrightarrow> td_timestamp r' \<le> Some t)
      \<longrightarrow> (fst (snd (snd (latest_status now d r))) \<longleftrightarrow> now - real_of_int t \<le> 900)"
  have "fst (snd (snd (latest_status 1000 db_one_sample 7))) \<longleftrightarrow> 1000 - real_of_int 100 \<le> 900"
    using a [rule_format, of row_at_100 db_one_sample 7 100 1000] db_one_sample_newest
    by blast
  then show False by (simp add: latest_status_1000)
qed

subsection \<open>Trend of the 24-hour window\<close>

lemma float_mean_first:
  "float_mean py_sum (spec_first_up_to 5 ts)
   = fl (py_sum (take 5 ts) / real (min 5 (length ts)))"
  by (simp add: float_mean_def spec_first_up_to_def min.commute)

lemma float_mean_last:
  "float_mean py_sum (spec_last_up_to 5 ts)
   = fl (py_sum (drop (length ts - 5) ts) / real (min 5 (length ts)))"
proof -
  have "spec_last_up_to 5 ts = drop (length ts - 5) ts"
    by (simp add: spec_last_up_to_def take_rev)
  moreover have "length (drop (length ts - 5) ts) = min 5 (length ts)" by simp
  ultimately show ?thesis by (simp only: float_mean_def)
qed

lemma trend_of_stats:
  "trend (get_24h_temperature_stats py_sum now d r)
   = compute_trend py_sum (map td_temperature (window_24h now d r))"
  by (simp add: get_24h_temperature_stats_def Let_def compute_trend_def)

lemma window_24h_set:
  "set (window_24h now d r)
   = {x \<in> set (temperature_data d).
        td_cold_room_id x = r \<and> (\<exists>t. td_timestamp x = Some t \<and> \<lfloor>now\<rfloor> - 86400 \<le> t)}"
  by (auto simp: window_24h_def sort_desc_def split: option.splits)

lemma sort_desc_sorted: "sorted_wrt (\<lambda>a b. a \<ge> b) (map k (sort_desc k xs))"
proof -
  have "sorted (map k (sort_key k (rev xs)))" by simp
  then have "sorted_wrt (\<lambda>a b. a \<le> b) (map k (sort_key k (rev xs)))" by simp
  then have "sorted_wrt (\<lambda>a b. a \<ge> b) (rev (map k (sort_key k (rev xs))))"
    by (simp add: sorted_wrt_rev)
  then show ?thesis by (simp add: sort_desc_def rev_map)
qed

lemma window_24h_newest_first:
  "sorted_wrt (\<lambda>a b. a \<ge> b) (map td_timestamp (window_24h now d r))"
  unfolding window_24h_def by (rule sort_desc_sorted)

text \<open>
  Claim C4, amended. The trend reported by \<^verbatim>\<open>get_24h_temperature_stats\<close> is the
  classification of the newest-first temperatures of the window: with fewer than two
  samples it is \<^verbatim>\<open>stable\<close>; otherwise, with the two means and the sum and the difference
  with 0.5 each computed in doubles, it is \<^verbatim>\<open>rising\<close> when the mean of the first up-to-5
  samples is greater than the mean of the last up-to-5 samples plus 0.5, \<^verbatim>\<open>falling\<close> when it
  is not and is less than that mean minus 0.5, and \<^verbatim>\<open>stable\<close> in every other case. The
  window holds the samples of the room whose timestamp is not older than 24 hours, newest
  first.
\<close>

theorem trend_classification:
  "trend (get_24h_temperature_stats py_sum now d r)
     = compute_trend py_sum (map td_temperature (window_24h now d r))
   \<and> (length ts < 2 \<longrightarrow> compute_trend py_sum ts = ''stable'')
   \<and> (2 \<le> length ts
        \<and> float_mean py_sum (spec_first_up_to 5 ts)
            > fl (float_mean py_sum (spec_last_up_to 5 ts) + 0.5)
      \<longrightarrow> compute_trend py_sum ts = ''rising'')
   \<and> (2 \<le> length ts
        \<and> \<not> float_mean py_sum (spec_first_up_to 5 ts)
              > fl (float_mean py_sum (spec_last_up_to 5 ts) + 0.5)
        \<and> float_mean py_sum (spec_first_up_to 5 ts)
            < fl (float_mean py_sum (spec_last_up_to 5 ts) - 0.5)
      \<longrightarrow> compute_trend py_sum ts = ''falling'')
   \<and> (2 \<le> length ts
        \<and> \<not> float_mean py_sum (spec_first_up_to 5 ts)
              > fl (float_mean py_sum (spec_last_up_to 5 ts) + 0.5)
        \<and> \<not> float_mean py_sum (spec_first_up_to 5 ts)
              < fl (float_mean py_sum (spec_last_up_to 5 ts) - 0.5)
      \<longrightarrow> compute_trend py_sum ts = ''stable'')
   \<and> set (window_24h now d r)
       = {x \<in> set (temperature_data d).
            td_cold_room_id x = r
            \<and> (\<exists>t. td_timestamp x = Some t \<and> \<lfloor>now\<rfloor> - 86400 \<le> t)}
   \<and> sorted_wrt (\<lambda>a b. a \<ge> b) (map td_timestamp (window_24h now d r))"
proof -
  have 1: "length ts < 2 \<longrightarrow> compute_trend py_sum ts = ''stable''"
    by (simp add: compute_trend_def)
  have 2: "2 \<le> length ts
        \<and> float_mean py_sum (spec_first_up_to 5 ts)
            > fl (float_mean py_sum (spec_last_up_to 5 ts) + 0.5)
      \<longrightarrow> compute_trend py_sum ts = ''rising''"
    unfolding float_mean_first float_mean_last by (simp add: compute_trend_def Let_def)
  have 3: "2 \<le> length ts
        \<and> \<not> float_mean py_sum (spec_first_up_to 5 ts)
              > fl (float_mean py_sum (spec_last_up_to 5 ts) + 0.5)
        \<and> float_mean py_sum (spec_first_up_to 5 ts)
            < fl (float_mean py_sum (spec_last_up_to 5 ts) - 0.5)
      \<longrightarrow> compute_trend py_sum ts = ''falling''"
    unfolding float_mean_first float_mean_last by (simp add: compute_trend_def Let_def)
  have 4: "2 \<le> length ts
        \<and> \<not> float_mean py_sum (spec_first_up_to 5 ts)
              > fl (float_mean py_sum (spec_last_up_to 5 ts) + 0.5)
        \<and> \<not> float_mean py_sum (spec_first_up_to 5 ts)
              < fl (float_mean py_sum (spec_last_up_to 5 ts) - 0.5)
      \<longrightarrow> compute_trend py_sum ts = ''stable''"
    unfolding float_mean_first float_mean_last by (simp add: compute_trend_def Let_def)
  from trend_of_stats 1 2 3 4 window_24h_set window_24h_newest_first
  show ?thesis by (intro conjI)
qed

theorem trend_classification_witness:
  "compute_trend sum_list [9, 1, 1, 1, 1, 1] = ''rising''
   \<and> compute_trend sum_list [1, 1, 1, 1, 1, 9] = ''falling''
   \<and> compute_trend sum_list [5, 3] = ''stable'' \<and> compute_trend sum_list [9] = ''stable''"
  using trend_classification [of sum_list 0 db_one_eighth 7 "[9, 1, 1, 1, 1, 1]"]
    trend_classification [of sum_list 0 db_one_eighth 7 "[1, 1, 1, 1, 1, 9]"]
    trend_classification [of sum_list 0 db_one_eighth 7 "[5, 3]"]
    trend_classification [of sum_list 0 db_one_eighth 7 "[9]"]
  by (simp add: float_mean_def spec_first_up_to_def spec_last_up_to_def fl_eval)

lemma compute_trend_half_step:
  "compute_trend sum_list [1 / 2, 0, 0, 0, 0, - 2] = ''rising''"
  by (simp add: compute_trend_def fl_eval)

text \<open>
  Claim C4 as stated, with the means compared in exact arithmetic, fails for the window
  0.5, 0, 0, 0, 0, -2 (newest first): the mean of the first five samples is 0.1, that of
  the last five is -0.4, so the first exceeds the second by exactly 0.5 and not by more;
  the program answers \<^verbatim>\<open>rising\<close>, because in doubles 0.5 / 5 is greater than
  -2 / 5 + 0.5. Every partial sum of these samples is a double, so \<^verbatim>\<open>sum\<close> returns the
  exact sums.
\<close>

theorem trend_exact_means_counterexample:
  "\<not> (\<forall>ts. 2 \<le> length ts
        \<and> \<not> spec_mean (spec_first_up_to 5 ts) > spec_mean (spec_last_up_to 5 ts) + 0.5
        \<and> \<not> spec_mean (spec_first_up_to 5 ts) < spec_mean (spec_last_up_to 5 ts) - 0.5
      \<longrightarrow> compute_trend sum_list ts = ''stable'')"
proof
  assume a: "\<forall>ts. 2 \<le> length ts
        \<and> \<not> spec_mean (spec_first_up_to 5 ts) > spec_mean (spec_last_up_to 5 ts) + 0.5
        \<and> \<not> spec_mean (spec_first_up_to 5 ts) < spec_mean (spec_last_up_to 5 ts) - 0.5
      \<longrightarrow> compute_trend sum_list ts = ''stable''"
  have "compute_trend sum_list [1 / 2, 0, 0, 0, 0, - 2] = ''stable''"
    using a [rule_format, of "[1 / 2, 0, 0, 0, 0, - 2]"]
    by (simp add: spec_mean_def spec_first_up_to_def spec_last_up_to_def)
  then show False by (simp add: compute_trend_half_step)
qed

subsection \<open>Rounding in the CSV export\<close>

lemma round_half_even_near: "\<bar>real_of_int (round_half_even y) - y\<bar> \<le> 1 / 2"
proof -
  define r where "r = y - real_of_int \<lfloor>y\<rfloor>"
  have r: "0 \<le> r" "r < 1" unfolding r_def by linarith+
  consider "r < 1 / 2" | "r > 1 / 2" | "r = 1 / 2" by linarith
  then show ?thesis
  proof cases
    case 1
    then have "round_half_even y = \<lfloor>y\<rfloor>"
      by (simp add: round_half_even_def r_def Let_def)
    then have "real_of_int (round_half_even y) - y = - r" by (simp add: r_def)
    with r 1 show ?thesis by linarith
  next
    case 2
    then have "round_half_even y = \<lfloor>y\<rfloor> + 1"
      by (simp add: round_half_even_def r_def Let_def)
    then have "real_of_int (round_half_even y) - y = 1 - r" by (simp add: r_def)
    with r 2 show ?thesis by linarith
  next
    case 3
    then have "round_half_even y = \<lfloor>y\<rfloor> \<or> round_half_even y = \<lfloor>y\<rfloor> + 1"
      by (simp add: round_half_even_def r_def Let_def)
    then show ?thesis
    proof
      assume "round_half_even y = \<lfloor>y\<rfloor>"
      then have "real_of_int (round_half_even y) - y = - r" by (simp add: r_def)
      with r 3 show ?thesis by linarith
    next
      assume "round_half_even y = \<lfloor>y\<rfloor> + 1"
      then have "real_of_int (round_half_even y) - y = 1 - r" by (simp add: r_def)
      with r 3 show ?thesis by linarith
    qed
  qed
qed

lemma py_round_2_near: "\<bar>py_round x 2 - x\<bar> \<le> 1 / 200"
proof -
  have "\<bar>real_of_int (round_half_even (x * 100)) - x * 100\<bar> \<le> 1 / 2"
    by (rule round_half_even_near)
  then have "\<bar>real_of_int (round_half_even (x * 100)) / 100 - x\<bar> \<le> 1 / 200"
    by (simp add: abs_if split: if_splits)
  then show ?thesis by (simp add: py_round_def)
qed

lemma py_round_2_grid: "py_round x 2 * 100 \<in> \<int>"
  by (simp add: py_round_def)

lemma export_csv_aggregated:
  assumes "aggregation = ''hourly'' \<or> aggregation = ''daily''"
  shows "export_csv sql_avg d r f t aggregation
     = Some (aggregated_header
             # map (\<lambda>a. [Time (ar_timestamp a),
                          Number (py_round (ar_temperature a) 2),
                          Number (py_round (ar_min_temp a) 2),
                          Number (py_round (ar_max_temp a) 2),
                          Count (ar_readings a)])
                 (aggregate sql_avg (if aggregation = ''hourly'' then hour_bucket else day_bucket)
                    (filtered_rows d r f t)))"
  using assms
  by (auto simp: export_csv_def export_to_csv_def get_temperature_data_with_filters_def Let_def)

lemma export_csv_full:
  "export_csv sql_avg d r f t ''full''
     = Some (full_header
             # map (\<lambda>row. [Time (td_timestamp row), Number (td_temperature row)])
                 (sort_desc td_timestamp (filtered_rows d r f t)))"
  by (simp add: export_csv_def export_to_csv_def get_temperature_data_with_filters_def Let_def
      comp_def)

lemma db_one_eighth_hourly:
  "aggregate spec_mean hour_bucket (filtered_rows db_one_eighth 7 None None)
   = [\<lparr>ar_timestamp = Some 3600, ar_temperature = 1 / 8, ar_min_temp = 1 / 8,
       ar_max_temp = 1 / 8, ar_readings = 1\<rparr>]"
  by (simp add: aggregate_def filtered_rows_def db_one_eighth_def registry_db_def
      date_filter_def group_rows_def sort_desc_def agg_row_of_def hour_bucket_def
      spec_mean_def)

lemma py_round_one_eighth_2: "py_round (1 / 8) 2 = 12 / 100"
  by (simp add: py_round_def round_half_even_def Let_def)

lemma py_round_one_eighth_1: "py_round (1 / 8) 1 = 1 / 10"
  by (simp add: py_round_def round_half_even_def Let_def)

text \<open>
  Claim C7, amended. In the CSV export every hourly or daily row carries the average,
  minimum and maximum of its bucket rounded with \<^verbatim>\<open>round(_, 2)\<close>, that is to two decimal
  places: a multiple of 0.01 within 0.005 of the aggregate. Every row of the full export
  carries the stored temperature itself.
\<close>

theorem export_csv_rounding:
  "(aggregation = ''hourly'' \<or> aggregation = ''daily'' \<longrightarrow>
      export_csv sql_avg d r f t aggregation
       = Some (aggregated_header
               # map (\<lambda>a. [Time (ar_timestamp a),
                            Number (py_round (ar_temperature a) 2),
                            Number (py_round (ar_min_temp a) 2),
                            Number (py_round (ar_max_temp a) 2),
                            Count (ar_readings a)])
                   (aggregate sql_avg (if aggregation = ''hourly'' then hour_bucket else day_bucket)
                      (filtered_rows d r f t))))
   \<and> py_round x 2 * 100 \<in> \<int> \<and> \<bar>py_round x 2 - x\<bar> \<le> 1 / 200
   \<and> export_csv sql_avg d r f t ''full''
       = Some (full_header
               # map (\<lambda>row. [Time (td_timestamp row), Number (td_temperature row)])
                   (sort_desc td_timestamp (filtered_rows d r f t)))"
  using export_csv_aggregated [of aggregation sql_avg d r f t] py_round_2_grid [of x]
    py_round_2_near [of x] export_csv_full [of sql_avg d r f t]
  by (intro conjI impI)

theorem export_csv_rounding_witness:
  "export_csv spec_mean db_one_eighth 7 None None ''hourly''
     = Some [aggregated_header,
             [Time (Some 3600), Number (12 / 100), Number (12 / 100), Number (12 / 100),
              Count 1]]"
  using export_csv_rounding [of "''hourly''" spec_mean db_one_eighth 7 None None 0]
  by (simp add: db_one_eighth_hourly py_round_one_eighth_2)

text \<open>
  Claim C7 as stated, with hourly aggregates rounded to one decimal place, fails on a room
  whose only sample is 0.125: the exported average is 0.12, not the one-decimal 0.1. The
  bucket holds that one sample, whose mean is the sample itself, so \<open>spec_mean\<close> stands for
  \<^verbatim>\<open>AVG\<close> here.
\<close>

theorem export_csv_one_decimal_counterexample:
  "\<not> (\<forall>d r f t. export_csv spec_mean d r f t ''hourly''
       = Some (aggregated_header
               # map (\<lambda>a. [Time (ar_timestamp a),
                            Number (py_round (ar_temperature a) 1),
                            Number (py_round (ar_min_temp a) 1),
                            Number (py_round (ar_max_temp a) 1),
                            Count (ar_readings a)])
                   (aggregate spec_mean hour_bucket (filtered_rows d r f t))))"
proof
  assume a: "\<forall>d r f t. export_csv spec_mean d r f t ''hourly''
       = Some (aggregated_header
               # map (\<lambda>a. [Time (ar_timestamp a),
                            Number (py_round (ar_temperature a) 1),
                            Number (py_round (ar_min_temp a) 1),
                            Number (py_round (ar_max_temp a) 1),
                            Count (ar_readings a)])
                   (aggregate spec_mean hour_bucket (filtered_rows d r f t)))"
  have "export_csv spec_mean db_one_eighth 7 None None ''hourly''
     = Some [aggregated_header,
             [Time (Some 3600), Number (12 / 100), Number (12 / 100), Number (12 / 100),
              Count 1]]"
    using export_csv_aggregated [of "''hourly''" spec_mean db_one_eighth 7 None None]
    by (simp add: db_one_eighth_hourly py_round_one_eighth_2)
  with a [rule_format, of db_one_eighth 7 None None] show False
    by (simp add: db_one_eighth_hourly py_round_one_eighth_1 [unfolded One_nat_def])
qed

subsection \<open>The ingestion loop\<close>





lemma ingest_loop_append:
  "ingest_loop fmt now mac st (xs @ ys)
   = ingest_loop fmt now mac (ingest_loop fmt now mac st xs) ys"
  by (simp add: ingest_loop_def)











subsection \<open>Responses of the ingestion endpoint\<close>











subsection \<open>Resolving an error\<close>

lemma left_join_fst:
  assumes "p \<in> set (left_join on xs ys)"
  shows "fst p \<in> set xs"
proof -
  from assms obtain x where x: "x \<in> set xs"
    and p: "p \<in> set (case filter (on x) ys of [] \<Rightarrow> [(x, None)]
                      | m # ms' \<Rightarrow> map (\<lambda>y. (x, Some y)) (m # ms'))"
    unfolding left_join_def by auto
  have "fst p = x"
  proof (cases "filter (on x) ys")
    case Nil
    with p show ?thesis by simp
  next
    case (Cons m ms')
    with p show ?thesis by auto
  qed
  with x show ?thesis by simp
qed

lemma resolved_after_resolve:
  assumes "e \<in> set (esp32_errors (snd (resolve_esp32_error d i)))" and "err_id e = i"
  shows "err_resolved e"
proof -
  from assms(1) obtain e0 where e0: "e0 \<in> set (esp32_errors d)"
    and e: "e = (if err_id e0 = i then e0\<lparr>err_resolved := True\<rparr> else e0)"
    by (auto simp: resolve_esp32_error_def)
  show ?thesis
  proof (cases "err_id e0 = i")
    case True
    with e show ?thesis by simp
  next
    case False
    with e assms(2) show ?thesis by simp
  qed
qed

lemma resolve_map_twice:
  "map (\<lambda>e. if err_id e = i then e\<lparr>err_resolved := True\<rparr> else e)
     (map (\<lambda>e. if err_id e = i then e\<lparr>err_resolved := True\<rparr> else e) xs)
   = map (\<lambda>e. if err_id e = i then e\<lparr>err_resolved := True\<rparr> else e) xs"
  for xs :: "esp32_error list"
  by (induction xs) simp_all

lemma resolve_twice:
  "resolve_esp32_error (snd (resolve_esp32_error d i)) i = resolve_esp32_error d i"
  by (simp add: resolve_esp32_error_def resolve_map_twice)

lemma resolve_absent:
  assumes a: "i \<notin> err_id ` set (esp32_errors d)"
  shows "snd (resolve_esp32_error d i) = d"
proof -
  have "map (\<lambda>e. if err_id e = i then e\<lparr>err_resolved := True\<rparr> else e) (esp32_errors d)
        = esp32_errors d"
  proof (rule map_idI)
    fix e assume "e \<in> set (esp32_errors d)"
    with a have "err_id e \<noteq> i" by auto
    then show "(if err_id e = i then e\<lparr>err_resolved := True\<rparr> else e) = e" by simp
  qed
  then show ?thesis by (simp add: resolve_esp32_error_def)
qed

lemma unresolved_listing_ids:
  "set (map uv_id (get_all_unresolved_errors d))
   \<subseteq> err_id ` {e \<in> set (esp32_errors d). \<not> err_resolved e}"
proof
  fix i assume "i \<in> set (map uv_id (get_all_unresolved_errors d))"
  then obtain x where x: "x \<in> set (left_join (\<lambda>(e, c) l. c \<noteq> None \<and> room_location_id (the c) = loc_id l)
                 (left_join (\<lambda>e c. err_sensor_id e \<noteq> None \<and> err_sensor_id e = room_sensor_id c)
                    (esp32_errors d) (cold_rooms d))
                 (locations d))"
    and r: "\<not> err_resolved (fst (fst x))" and i: "i = err_id (fst (fst x))"
    by (auto simp: get_all_unresolved_errors_def Let_def sort_desc_def case_prod_beta)
  from left_join_fst [OF x] have "fst x \<in> set (left_join
        (\<lambda>e c. err_sensor_id e \<noteq> None \<and> err_sensor_id e = room_sensor_id c)
        (esp32_errors d) (cold_rooms d))" .
  from left_join_fst [OF this] have "fst (fst x) \<in> set (esp32_errors d)" .
  with r i show "i \<in> err_id ` {e \<in> set (esp32_errors d). \<not> err_resolved e}" by blast
qed

lemma room_listing_ids:
  "set (map ev_id (get_esp32_errors_for_cold_room d r n))
   \<subseteq> err_id ` {e \<in> set (esp32_errors d). \<not> err_resolved e}"
proof (cases "get_cold_room_by_id d r")
  case None
  then show ?thesis by (simp add: get_esp32_errors_for_cold_room_def)
next
  case (Some c)
  show ?thesis
  proof (cases "truthy_str (room_sensor_id c)")
    case False
    with Some show ?thesis by (simp add: get_esp32_errors_for_cold_room_def)
  next
    case True
    have "map ev_id (get_esp32_errors_for_cold_room d r n)
      = map err_id (take n (sort_desc err_timestamp
          (filter (\<lambda>e. err_sensor_id e = room_sensor_id c \<and> \<not> err_resolved e)
             (esp32_errors d))))"
      using True Some by (simp add: get_esp32_errors_for_cold_room_def comp_def)
    moreover have "set (take n (sort_desc err_timestamp
          (filter (\<lambda>e. err_sensor_id e = room_sensor_id c \<and> \<not> err_resolved e)
             (esp32_errors d))))
        \<subseteq> {e \<in> set (esp32_errors d). \<not> err_resolved e}"
      using set_take_subset [of n "sort_desc err_timestamp
          (filter (\<lambda>e. err_sensor_id e = room_sensor_id c \<and> \<not> err_resolved e)
             (esp32_errors d))"]
      by (auto simp: sort_desc_def)
    ultimately show ?thesis by auto
  qed
qed

text \<open>
  Claim C9. \<^verbatim>\<open>resolve_esp32_error\<close> always returns \<^verbatim>\<open>True\<close>; resolving the same id a second
  time changes nothing; after the first call every error with that id has its resolved
  flag set, and the id appears neither in \<^verbatim>\<open>get_all_unresolved_errors\<close> nor in the
  unresolved errors listed for any room; resolving an id that no error has leaves the
  store as it was.
\<close>

theorem resolve_esp32_error_idempotent:
  "fst (resolve_esp32_error d i)
   \<and> resolve_esp32_error (snd (resolve_esp32_error d i)) i = resolve_esp32_error d i
   \<and> (\<forall>e \<in> set (esp32_errors (snd (resolve_esp32_error d i))). err_id e = i \<longrightarrow> err_resolved e)
   \<and> i \<notin> set (map uv_id (get_all_unresolved_errors (snd (resolve_esp32_error d i))))
   \<and> i \<notin> set (map ev_id (get_esp32_errors_for_cold_room (snd (resolve_esp32_error d i)) r n))
   \<and> (i \<notin> err_id ` set (esp32_errors d) \<longrightarrow> snd (resolve_esp32_error d i) = d)"
proof -
  have 1: "fst (resolve_esp32_error d i)" by (simp add: resolve_esp32_error_def)
  have 2: "resolve_esp32_error (snd (resolve_esp32_error d i)) i = resolve_esp32_error d i"
    by (rule resolve_twice)
  have 3: "\<forall>e \<in> set (esp32_errors (snd (resolve_esp32_error d i))).
             err_id e = i \<longrightarrow> err_resolved e"
    using resolved_after_resolve by blast
  have none: "i \<notin> err_id ` {e \<in> set (esp32_errors (snd (resolve_esp32_error d i))).
                            \<not> err_resolved e}"
    using 3 by blast
  have 4: "i \<notin> set (map uv_id (get_all_unresolved_errors (snd (resolve_esp32_error d i))))"
    using none unresolved_listing_ids [of "snd (resolve_esp32_error d i)"] by blast
  have 5: "i \<notin> set (map ev_id
                (get_esp32_errors_for_cold_room (snd (resolve_esp32_error d i)) r n))"
    using none room_listing_ids [of "snd (resolve_esp32_error d i)" r n] by blast
  have 6: "i \<notin> err_id ` set (esp32_errors d) \<longrightarrow> snd (resolve_esp32_error d i) = d"
    using resolve_absent by blast
  from 1 2 3 4 5 6 show ?thesis by (intro conjI)
qed

lemma db_one_error_listed:
  "map uv_id (get_all_unresolved_errors db_one_error) = [1]
   \<and> map ev_id (get_esp32_errors_for_cold_room db_one_error 7 10) = [1]"
  by (simp add: get_all_unresolved_errors_def get_esp32_errors_for_cold_room_def
      get_cold_room_by_id_def left_join_def sort_desc_def db_one_error_def registry_db_def
      Let_def)

lemma db_one_error_resolved:
  "esp32_errors (snd (resolve_esp32_error db_one_error 1))
   = [\<lparr>err_id = 1, err_esp32_mac = ''AA:BB'', err_sensor_id = Some ''S1'',
       err_error_type = ''MALFORMED_DATA'', err_error_message = ''Malformed reading'',
       err_timestamp = Some 50, err_resolved = True\<rparr>]"
  by (simp add: resolve_esp32_error_def db_one_error_def registry_db_def)

theorem resolve_esp32_error_idempotent_witness:
  "map uv_id (get_all_unresolved_errors db_one_error) = [1]
   \<and> map ev_id (get_esp32_errors_for_cold_room db_one_error 7 10) = [1]
   \<and> 1 \<notin> set (map uv_id (get_all_unresolved_errors (snd (resolve_esp32_error db_one_error 1))))
   \<and> 1 \<notin> set (map ev_id (get_esp32_errors_for_cold_room
                             (snd (resolve_esp32_error db_one_error 1)) 7 10))
   \<and> map err_resolved (esp32_errors (snd (resolve_esp32_error db_one_error 1))) = [True]
   \<and> snd (resolve_esp32_error db_one_error 2) = db_one_error"
  using resolve_esp32_error_idempotent [of db_one_error 1 7 10]
    resolve_esp32_error_idempotent [of db_one_error 2 7 10]
    db_one_error_listed db_one_error_resolved
  by (simp add: db_one_error_def registry_db_def)

subsection \<open>Hourly and daily aggregation\<close>



















subsection \<open>Combined statistics of a location\<close>

lemma last_24h_data_temps:
  "map fst (last_24h_data (get_24h_temperature_stats py_sum now d r))
   = map td_temperature (take 48 (window_24h now d r))"
  by (simp add: get_24h_temperature_stats_def Let_def comp_def take_map)

lemma dashboard_room_pool:
  "all_24h_temps (dashboard_room py_sum now d acc room)
   = all_24h_temps acc @ map td_temperature (take 48 (window_24h now d (room_id room)))"
proof -
  obtain lt ltime active mins where ls:
    "latest_status now d (room_id room) = (lt, ltime, active, mins)"
    by (cases "latest_status now d (room_id room)")
  show ?thesis
  proof (cases "get_temperature_data_for_cold_room now d (room_id room) (Some 1)")
    case Nil
    then show ?thesis
      by (simp add: dashboard_room_def Let_def ls last_24h_data_temps del: One_nat_def)
  next
    case (Cons latest rest)
    then show ?thesis
      by (simp add: dashboard_room_def Let_def ls last_24h_data_temps del: One_nat_def)
  qed
qed

lemma dashboard_fold_pool:
  "all_24h_temps (foldl (dashboard_room py_sum now d) acc rooms)
   = all_24h_temps acc
     @ concat (map (\<lambda>room. map td_temperature (take 48 (window_24h now d (room_id room))))
                rooms)"
  by (induction rooms arbitrary: acc) (simp_all add: dashboard_room_pool)

lemma user_dashboard_min_24h:
  assumes "get_location_by_id d l = Some loc"
  shows "min_24h (snd (the (user_dashboard py_sum now d l)))
    = map_option (\<lambda>m. py_round m 1)
        (py_min (concat (map (\<lambda>room. map td_temperature
                                 (take 48 (window_24h now d (room_id room))))
                           (get_cold_rooms_by_location d (loc_id loc)))))"
  using assms
  by (simp add: user_dashboard_def Let_def combine_stats_def dashboard_fold_pool)

lemma replicate_48: "replicate 48 x = replicate 24 x @ replicate 24 x"
  by (simp add: replicate_add [symmetric])

lemma replicate_24:
  "replicate 24 x = [x, x, x, x, x, x, x, x, x, x, x, x, x, x, x, x, x, x, x, x, x, x, x, x]"
  by (simp add: numeral_eq_Suc)

lemma db_49_samples_window:
  "map td_temperature (window_24h 100 db_49_samples 7) = replicate 48 2 @ [- 30]"
  by (simp add: window_24h_def db_49_samples_def registry_db_def sort_desc_def
      replicate_48 replicate_24)

text \<open>
  Claim C6 at a location with one room that holds 49 samples of the last 24 hours, the
  oldest at -30 degrees and the others at 2 degrees. The minimum over the full 24-hour
  sample set is -30, which is also what the statistics of the room itself report; the
  combined statistics of the location report 2, because they pool the list
  \<^verbatim>\<open>last_24h_data\<close>, which holds only the newest 48 samples of a room.
\<close>

theorem combined_min_24h_misses_oldest_sample:
  "min_24h (snd (the (user_dashboard py_sum 100 db_49_samples 1))) = Some 2
   \<and> Min (set (map td_temperature (window_24h 100 db_49_samples 7))) = - 30
   \<and> min_temp (get_24h_temperature_stats py_sum 100 db_49_samples 7) = Some (- 30)"
proof -
  have w: "map td_temperature (window_24h 100 db_49_samples 7) = replicate 48 2 @ [- 30]"
    by (rule db_49_samples_window)
  have rooms: "get_cold_rooms_by_location db_49_samples 1
      = [\<lparr>room_id = 7, room_name = ''Room A'', room_location_id = 1,
          room_sensor_id = Some ''S1''\<rparr>]"
    by (simp add: get_cold_rooms_by_location_def db_49_samples_def registry_db_def)
  have t: "map td_temperature (take 48 (window_24h 100 db_49_samples 7)) = replicate 48 2"
    unfolding take_map [symmetric] w by simp
  have loc: "get_location_by_id db_49_samples 1 = Some \<lparr>loc_id = 1, loc_name = ''Depot''\<rparr>"
    by (simp add: get_location_by_id_def db_49_samples_def registry_db_def)
  have "min_24h (snd (the (user_dashboard py_sum 100 db_49_samples 1)))
      = map_option (\<lambda>m. py_round m 1) (py_min (replicate 48 2))"
    unfolding user_dashboard_min_24h [OF loc] by (simp add: rooms t del: One_nat_def)
  also have "\<dots> = Some 2"
    by (simp add: replicate_48 replicate_24 py_round_def round_half_even_def)
  finally have 1: "min_24h (snd (the (user_dashboard py_sum 100 db_49_samples 1))) = Some 2" .
  have 2: "Min (set (map td_temperature (window_24h 100 db_49_samples 7))) = - 30"
    unfolding w by simp
  have ne: "window_24h 100 db_49_samples 7 \<noteq> []"
    using w by auto
  have "py_min (replicate 48 2 @ [- 30]) = Some (- 30)"
    by (simp add: replicate_48 replicate_24)
  then have 3: "min_temp (get_24h_temperature_stats py_sum 100 db_49_samples 7) = Some (- 30)"
    using ne by (simp add: get_24h_temperature_stats_def Let_def w py_round_def
        round_half_even_def)
  from 1 2 3 show ?thesis by (intro conjI)
qed

end
